theory Spec2Isabelle
  imports Main "HOL-Library.AList"
begin

section \<open>Data model of the authorize endpoint (authorize.go)\<close>

subsection \<open>Errors\<close>

text \<open>
  The package-level error values are singletons that the code compares by identity
  (\<^verbatim>\<open>err != ErrInvalidResponseType\<close>). \<^verbatim>\<open>errors.New(e)\<close> of go-errors allocates a
  fresh stack-traced wrapper around \<open>e\<close>; the wrapper is a different value from \<open>e\<close>, which
  the constructor \<open>Wrapped\<close> keeps visible. \<open>OtherError\<close> stands for any error value that is
  none of the package's singletons.
\<close>

datatype error =
    ErrInvalidRequest
  | ErrInvalidClient
  | ErrInvalidState
  | ErrInvalidResponseType
  | ErrNoResponseTypeHandlerFound
  | Wrapped error
  | OtherError string

definition errors_New :: "error \<Rightarrow> error" where
  "errors_New e = Wrapped e"

text \<open>A nil pointer that is dereferenced panics; the model returns the panic as a value.\<close>

datatype panic = NilPointerDereference

subsection \<open>URLs, query values and headers\<close>

text \<open>The fields of Go's \<^verbatim>\<open>url.URL\<close>.\<close>

record URL =
  Scheme :: string
  Opaque :: string
  User :: string
  Host :: string
  Path :: string
  RawQuery :: string
  Fragment :: string

text \<open>
  \<^verbatim>\<open>url.Values\<close> and \<^verbatim>\<open>http.Header\<close> are both \<^verbatim>\<open>map[string][]string\<close>. The model is an
  association list read through \<open>map_of\<close>: the first entry of a key is the key's entry.
  The keys of the map are the keys of the list without repetition.
\<close>

type_synonym Values = "(string \<times> string list) list"

definition Values_keys :: "Values \<Rightarrow> string list" where
  "Values_keys v = remdups (map fst v)"

definition Values_lookup :: "Values \<Rightarrow> string \<Rightarrow> string list" where
  \<comment> \<open>\<^verbatim>\<open>v[key]\<close>: the nil slice for a key that is absent\<close>
  "Values_lookup v key = (case map_of v key of None \<Rightarrow> [] | Some vs \<Rightarrow> vs)"

definition Values_Get :: "Values \<Rightarrow> string \<Rightarrow> string" where
  \<comment> \<open>\<^verbatim>\<open>vs := v[key]; if len(vs) == 0 { return "" }; return vs[0]\<close>\<close>
  "Values_Get v key = (case Values_lookup v key of [] \<Rightarrow> [] | x # _ \<Rightarrow> x)"

definition Values_Add :: "Values \<Rightarrow> string \<Rightarrow> string \<Rightarrow> Values" where
  \<comment> \<open>\<^verbatim>\<open>v[key] = append(v[key], value)\<close>\<close>
  "Values_Add v key val = AList.update key (Values_lookup v key @ [val]) v"

subsection \<open>Clients, requests, responses\<close>

text \<open>
  Modelled from the spec: the declarations of \<^verbatim>\<open>Client\<close>, \<^verbatim>\<open>AuthorizeRequest\<close>,
  \<^verbatim>\<open>AuthorizeResponse\<close> and of the RFC 6749 error are not part of authorize.go. A client
  has an opaque id and an ordered sequence of registered redirect URI strings
  (\<^verbatim>\<open>GetRedirectURIs\<close>). The request carries the six fields that
  \<^verbatim>\<open>NewAuthorizeRequest\<close> assigns; a field that was never assigned holds Go's zero value
  (\<open>None\<close> for the nil interface and the nil pointer, the empty list, the empty string).
  The response carries accumulated query values and accumulated headers.
\<close>

record Client =
  ID :: string
  RedirectURIs :: "string list"

record AuthorizeRequest =
  RequestedAt :: nat
  Client :: "Client option"
  RedirectURI :: "URL option"
  ResponseTypes :: "string list"
  State :: string
  Scopes :: "string list"

record AuthorizeResponse =
  Query :: Values
  Header :: Values

record RFC6749Error =
  Name :: string
  Description :: string

text \<open>
  \<^verbatim>\<open>http.ResponseWriter\<close> is an interface. The model keeps the header map that
  \<^verbatim>\<open>Header()\<close> hands out, the status codes passed to \<^verbatim>\<open>WriteHeader\<close> (oldest first) and
  the bytes written to the body.
\<close>

record ResponseWriter =
  rw_Header :: Values
  rw_WriteHeader :: "nat list"
  rw_Body :: string

subsection \<open>Collaborators outside authorize.go\<close>

text \<open>
  The standard library, govalidator, the client store and the functions of the package
  that live in other files are parameters of the model. A function that returns
  \<^verbatim>\<open>(value, error)\<close> and whose error the code only tests against nil returns an option:
  \<open>None\<close> is a non-nil error. \<open>'r\<close> is the inbound \<^verbatim>\<open>*http.Request\<close>, which the code
  reads through \<^verbatim>\<open>ParseForm\<close> only (\<open>Some form\<close> is \<^verbatim>\<open>r.Form\<close> after a successful parse).
\<close>

record 'r env =
  time_Now :: nat
  Request_ParseForm :: "'r \<Rightarrow> Values option"
  Store_GetClient :: "string \<Rightarrow> Client option"
  url_QueryUnescape :: "string \<Rightarrow> string option"
  url_Parse :: "string \<Rightarrow> URL option"
  url_ParseQuery :: "string \<Rightarrow> Values"
  URL_String :: "URL \<Rightarrow> string"
  Values_Encode :: "Values \<Rightarrow> string"
  govalidator_IsRequestURL :: "string \<Rightarrow> bool"
  CanonicalMIMEHeaderKey :: "string \<Rightarrow> string"
  IsRedirectURIValid :: "AuthorizeRequest \<Rightarrow> bool"
  ErrorToRFC6749Error :: "error \<Rightarrow> RFC6749Error"
  pkg_WriteJSON :: "ResponseWriter \<Rightarrow> RFC6749Error \<Rightarrow> ResponseWriter"

definition URL_Query :: "'r env \<Rightarrow> URL \<Rightarrow> Values" where
  \<comment> \<open>\<^verbatim>\<open>func (u *URL) Query() Values { v, _ := ParseQuery(u.RawQuery); return v }\<close>\<close>
  "URL_Query c u = url_ParseQuery c (RawQuery u)"

definition Header_Add :: "'r env \<Rightarrow> Values \<Rightarrow> string \<Rightarrow> string \<Rightarrow> Values" where
  "Header_Add c h key val = Values_Add h (CanonicalMIMEHeaderKey c key) val"

definition Header_Set :: "'r env \<Rightarrow> Values \<Rightarrow> string \<Rightarrow> string \<Rightarrow> Values" where
  "Header_Set c h key val = AList.update (CanonicalMIMEHeaderKey c key) [val] h"

definition StatusFound :: nat where
  "StatusFound = 302"

definition minStateLength :: nat where
  "minStateLength = 8"

section \<open>The redirect URI resolver\<close>

text \<open>
  Modelled from the spec: \<^verbatim>\<open>StringInSlice\<close> is declared in another file of the package.
  The spec (4.1) and the comment at its call site say what it decides: exact string
  comparison of the needle with each entry, not normalised.
\<close>

fun StringInSlice :: "string \<Rightarrow> string list \<Rightarrow> bool" where
  "StringInSlice needle [] = False"
| "StringInSlice needle (b # haystack) =
     (if b = needle then True else StringInSlice needle haystack)"

definition IsValidRedirectURI :: "'r env \<Rightarrow> URL \<Rightarrow> bool" where
  "IsValidRedirectURI c redirectURI =
     (if \<not> govalidator_IsRequestURL c (URL_String c redirectURI) then False
      else if Fragment redirectURI \<noteq> [] then False
      else True)"

definition MatchRedirectURIWithClientRedirectURIs ::
    "'r env \<Rightarrow> string \<Rightarrow> Client \<Rightarrow> error + URL" where
  "MatchRedirectURIWithClientRedirectURIs c rawurl client =
     (if rawurl = [] \<and> length (RedirectURIs client) = 1 then
        (case url_Parse c (RedirectURIs client ! 0) of
           Some redirectURIFromClient \<Rightarrow>
             if IsValidRedirectURI c redirectURIFromClient then Inr redirectURIFromClient
             else Inl (errors_New ErrInvalidRequest)
         | None \<Rightarrow> Inl (errors_New ErrInvalidRequest))
      else if rawurl \<noteq> [] \<and> StringInSlice rawurl (RedirectURIs client) then
        (case url_Parse c rawurl of
           Some parsed \<Rightarrow>
             if IsValidRedirectURI c parsed then Inr parsed
             else Inl (errors_New ErrInvalidRequest)
         | None \<Rightarrow> Inl (errors_New ErrInvalidRequest))
      else Inl (errors_New ErrInvalidRequest))"

definition GetRedirectURIFromRequestValues :: "'r env \<Rightarrow> Values \<Rightarrow> error + string" where
  "GetRedirectURIFromRequestValues c values =
     (case url_QueryUnescape c (Values_Get values ''redirect_uri'') of
        None \<Rightarrow> Inl (errors_New ErrInvalidRequest)
      | Some redirectURI \<Rightarrow> Inr redirectURI)"

section \<open>The authorization request builder\<close>

text \<open>
  \<^verbatim>\<open>strings.Split(s, " ")\<close>: the pieces of \<open>s\<close> between single spaces; the empty string
  has the one piece \<^verbatim>\<open>""\<close>.
\<close>

fun strings_Split :: "string \<Rightarrow> char \<Rightarrow> string list" where
  "strings_Split [] sep = [[]]"
| "strings_Split (ch # s) sep =
     (if ch = sep then [] # strings_Split s sep
      else (case strings_Split s sep of
              [] \<Rightarrow> [[ch]]
            | piece # pieces \<Rightarrow> (ch # piece) # pieces))"

text \<open>
  Modelled from the spec: \<^verbatim>\<open>removeEmpty\<close> is declared in another file of the package.
  The spec (4.2, steps 5 and 7) says that it discards the empty tokens.
\<close>

definition removeEmpty :: "string list \<Rightarrow> string list" where
  "removeEmpty args = filter (\<lambda>v. v \<noteq> []) args"

text \<open>
  The function returns the request together with the error on every path; \<open>None\<close> is the
  nil error. The request is a freshly allocated object, so it is never nil.
\<close>

definition NewAuthorizeRequest :: "'r env \<Rightarrow> 'r \<Rightarrow> AuthorizeRequest \<times> error option" where
  "NewAuthorizeRequest c r =
     (let request = \<lparr>RequestedAt = time_Now c, Client = None, RedirectURI = None,
                      ResponseTypes = [], State = [], Scopes = []\<rparr>
      in case Request_ParseForm c r of
           None \<Rightarrow> (request, Some (errors_New ErrInvalidRequest))
         | Some form \<Rightarrow>
      (case Store_GetClient c (Values_Get form ''client_id'') of
           None \<Rightarrow> (request, Some (errors_New ErrInvalidClient))
         | Some client \<Rightarrow>
      (let request = request\<lparr>Client := Some client\<rparr>
       in case GetRedirectURIFromRequestValues c form of
            Inl _ \<Rightarrow> (request, Some (errors_New ErrInvalidRequest))
          | Inr rawRedirURI \<Rightarrow>
      (case MatchRedirectURIWithClientRedirectURIs c rawRedirURI client of
            Inl _ \<Rightarrow> (request, Some (errors_New ErrInvalidRequest))
          | Inr redirectURI \<Rightarrow>
       if \<not> IsValidRedirectURI c redirectURI then
         (request, Some (errors_New ErrInvalidRequest))
       else
      (let request = request\<lparr>RedirectURI := Some redirectURI\<rparr>;
           responseTypes =
             removeEmpty (strings_Split (Values_Get form ''response_type'') CHR '' '');
           request = request\<lparr>ResponseTypes := responseTypes\<rparr>;
           state = Values_Get form ''state''
       in if state = [] then (request, Some (errors_New ErrInvalidState))
          else if length state < minStateLength then
            (request, Some (errors_New ErrInvalidState))
          else
            (let request = request\<lparr>State := state\<rparr>;
                 request = request\<lparr>Scopes :=
                   removeEmpty (strings_Split (Values_Get form ''scope'') CHR '' '')\<rparr>
             in (request, None)))))))"

section \<open>The response writer\<close>

text \<open>
  \<^verbatim>\<open>for k, _ := range args { q.Add(k, args.Get(k)) }\<close>, over the keys of \<open>args\<close>.
\<close>

fun add_query_args :: "Values \<Rightarrow> string list \<Rightarrow> Values \<Rightarrow> Values" where
  "add_query_args args [] q = q"
| "add_query_args args (k # ks) q =
     add_query_args args ks (Values_Add q k (Values_Get args k))"

text \<open>\<^verbatim>\<open>for _, vv := range v { rw.Header().Add(k, vv) }\<close>\<close>

fun add_header_values :: "'r env \<Rightarrow> string \<Rightarrow> string list \<Rightarrow> Values \<Rightarrow> Values" where
  "add_header_values c k [] h = h"
| "add_header_values c k (vv # v) h = add_header_values c k v (Header_Add c h k vv)"

text \<open>\<^verbatim>\<open>for k, v := range header { ... }\<close>, over the keys of \<open>header\<close>.\<close>

fun add_headers :: "'r env \<Rightarrow> Values \<Rightarrow> string list \<Rightarrow> Values \<Rightarrow> Values" where
  "add_headers c header [] h = h"
| "add_headers c header (k # ks) h =
     add_headers c header ks (add_header_values c k (Values_lookup header k) h)"

text \<open>
  Modelled from the spec: the accessors of the request and of the response are declared
  in other files. \<^verbatim>\<open>GetRedirectURI\<close> hands out the request's own \<^verbatim>\<open>*url.URL\<close>, so the
  assignment to \<^verbatim>\<open>RawQuery\<close> through that pointer changes the request's redirect URI,
  and the second call of \<^verbatim>\<open>GetRedirectURI\<close> reads the changed URL. The writers return the
  response writer and the request as they are after the call. A request without a
  redirect URI holds the nil pointer, whose dereference panics.
\<close>

definition WriteAuthorizeResponse ::
    "'r env \<Rightarrow> ResponseWriter \<Rightarrow> AuthorizeRequest \<Rightarrow> AuthorizeResponse
       \<Rightarrow> panic + (ResponseWriter \<times> AuthorizeRequest)" where
  "WriteAuthorizeResponse c rw ar resp =
     (case RedirectURI ar of
        None \<Rightarrow> Inl NilPointerDereference
      | Some redir \<Rightarrow>
          (let q = URL_Query c redir;
               args = Query resp;
               q = add_query_args args (Values_keys args) q;
               redir = redir\<lparr>RawQuery := Values_Encode c q\<rparr>;
               ar = ar\<lparr>RedirectURI := Some redir\<rparr>;
               header = Header resp;
               rw = rw\<lparr>rw_Header := add_headers c header (Values_keys header) (rw_Header rw)\<rparr>;
               rw = rw\<lparr>rw_Header := Header_Set c (rw_Header rw) ''Location'' (URL_String c redir)\<rparr>;
               rw = rw\<lparr>rw_WriteHeader := rw_WriteHeader rw @ [StatusFound]\<rparr>
           in Inr (rw, ar)))"

definition WriteAuthorizeError ::
    "'r env \<Rightarrow> ResponseWriter \<Rightarrow> AuthorizeRequest \<Rightarrow> error
       \<Rightarrow> panic + (ResponseWriter \<times> AuthorizeRequest)" where
  "WriteAuthorizeError c rw ar err =
     (let rfcerr = ErrorToRFC6749Error c err
      in if \<not> IsRedirectURIValid c ar then Inr (pkg_WriteJSON c rw rfcerr, ar)
         else
           (case RedirectURI ar of
              None \<Rightarrow> Inl NilPointerDereference
            | Some redirectURI \<Rightarrow>
                (let query = URL_Query c redirectURI;
                     query = Values_Add query ''error'' (Name rfcerr);
                     query = Values_Add query ''error_description'' (Description rfcerr);
                     redirectURI = redirectURI\<lparr>RawQuery := Values_Encode c query\<rparr>;
                     ar = ar\<lparr>RedirectURI := Some redirectURI\<rparr>;
                     rw = rw\<lparr>rw_Header :=
                            Header_Add c (rw_Header rw) ''Location'' (URL_String c redirectURI)\<rparr>;
                     rw = rw\<lparr>rw_WriteHeader := rw_WriteHeader rw @ [StatusFound]\<rparr>
                 in Inr (rw, ar))))"

section \<open>The response type dispatcher\<close>

text \<open>
  A handler receives the context, the shared response, the request, the inbound HTTP
  request and the session. It may write into the shared response and may act on the
  world outside (\<open>'w\<close>: stores, logs); it returns its error (\<open>None\<close> is nil) with the
  response and the world as it leaves them.
\<close>

type_synonym ('x, 'r, 's, 'w) ResponseTypeHandler =
  "'x \<Rightarrow> AuthorizeResponse \<Rightarrow> AuthorizeRequest \<Rightarrow> 'r \<Rightarrow> 's \<Rightarrow> 'w
     \<Rightarrow> error option \<times> AuthorizeResponse \<times> 'w"

text \<open>
  The loop of \<^verbatim>\<open>NewAuthorizeResponse\<close> over the handlers that are left, with the loop's
  variables \<open>resp\<close> and \<open>found\<close>: \<open>Inl\<close> is the early return of a handler's error.
\<close>

fun handle_response_types ::
    "('x, 'r, 's, 'w) ResponseTypeHandler list \<Rightarrow> 'x \<Rightarrow> AuthorizeRequest \<Rightarrow> 'r \<Rightarrow> 's
       \<Rightarrow> AuthorizeResponse \<Rightarrow> bool \<Rightarrow> 'w \<Rightarrow> (error + AuthorizeResponse \<times> bool) \<times> 'w" where
  "handle_response_types [] ctx ar r session resp found w = (Inr (resp, found), w)"
| "handle_response_types (h # hs) ctx ar r session resp found w =
     (case h ctx resp ar r session w of
        (err, resp', w') \<Rightarrow>
          (case err of
             None \<Rightarrow> handle_response_types hs ctx ar r session resp' True w'
           | Some e \<Rightarrow>
               if e \<noteq> ErrInvalidResponseType then (Inl e, w')
               else handle_response_types hs ctx ar r session resp' found w'))"

definition NewAuthorizeResponse ::
    "('x, 'r, 's, 'w) ResponseTypeHandler list \<Rightarrow> 'x \<Rightarrow> AuthorizeRequest \<Rightarrow> 'r \<Rightarrow> 's
       \<Rightarrow> 'w \<Rightarrow> (error + AuthorizeResponse) \<times> 'w" where
  "NewAuthorizeResponse ResponseTypeHandlers ctx ar r session w =
     (let resp = \<lparr>Query = [], Header = []\<rparr>
      in case handle_response_types ResponseTypeHandlers ctx ar r session resp False w of
           (Inl err, w') \<Rightarrow> (Inl err, w')
         | (Inr (resp', found), w') \<Rightarrow>
             if \<not> found then (Inl ErrNoResponseTypeHandlerFound, w')
             else (Inr resp', w'))"

text \<open>
  What the handlers of a chain return when each of them is invoked in turn on the
  response and the world its predecessor left: the outcomes in order, the accumulated
  response and the final world. This is the full traversal the spec (4.3) speaks of.
\<close>

fun invoke_all ::
    "('x, 'r, 's, 'w) ResponseTypeHandler list \<Rightarrow> 'x \<Rightarrow> AuthorizeRequest \<Rightarrow> 'r \<Rightarrow> 's
       \<Rightarrow> AuthorizeResponse \<Rightarrow> 'w \<Rightarrow> error option list \<times> AuthorizeResponse \<times> 'w" where
  "invoke_all [] ctx ar r session resp w = ([], resp, w)"
| "invoke_all (h # hs) ctx ar r session resp w =
     (case h ctx resp ar r session w of
        (err, resp', w') \<Rightarrow>
          (case invoke_all hs ctx ar r session resp' w' of
             (errs, resp'', w'') \<Rightarrow> (err # errs, resp'', w'')))"

text \<open>
  The handler of the authorization code grant (package \<^verbatim>\<open>authorize\<close>): it succeeds when
  the requested response types have \<^verbatim>\<open>token\<close> and is not responsible otherwise. It
  writes nothing. \<^verbatim>\<open>Has\<close> is membership in the list of response types.
\<close>

definition CodeResponseTypeHandler :: "('x, 'r, 's, 'w) ResponseTypeHandler" where
  "CodeResponseTypeHandler ctx resp ar r session w =
     (if StringInSlice ''token'' (ResponseTypes ar) then (None, resp, w)
      else (Some ErrInvalidResponseType, resp, w))"

section \<open>Characters and bytes\<close>

text \<open>
  The spec states the minimum length of the state in characters. A Go string is a
  sequence of bytes, and \<^verbatim>\<open>len\<close> counts bytes. \<open>character_count\<close> follows the spec's word:
  the number of characters of a UTF-8 encoded string, which is the number of its bytes
  that are not continuation bytes (\<^verbatim>\<open>10xxxxxx\<close>). It is not part of the code.
\<close>

definition is_continuation_byte :: "char \<Rightarrow> bool" where
  "is_continuation_byte ch = (128 \<le> (of_char ch :: nat) \<and> (of_char ch :: nat) < 192)"

definition character_count :: "string \<Rightarrow> nat" where
  "character_count s = length (filter (\<lambda>ch. \<not> is_continuation_byte ch) s)"

section \<open>A concrete deployment\<close>

text \<open>
  The scenarios of the spec (section 8) need collaborators that compute. The functions
  below stand in for the Go library on the plain \<^verbatim>\<open>https\<close> URLs and the unescaped forms
  of the scenarios: on these inputs the URL functions return what the library returns.
  The JSON writer and the error mapping are sketches (a content type, and the name and
  description as the body). The general theorems hold for every collaborator; only the
  worked examples use these.
\<close>

definition cut :: "string \<Rightarrow> char \<Rightarrow> string \<times> string" where
  "cut s sep = (takeWhile (\<lambda>ch. ch \<noteq> sep) s, drop 1 (dropWhile (\<lambda>ch. ch \<noteq> sep) s))"

definition example_Parse :: "string \<Rightarrow> URL option" where
  "example_Parse rawurl =
     (let (u, frag) = cut rawurl CHR ''#'';
          (rest, query) = cut u CHR ''?''
      in if take 8 rest = ''https://'' then
           Some \<lparr>Scheme = ''https'', Opaque = [], User = [],
                 Host = takeWhile (\<lambda>ch. ch \<noteq> CHR ''/'') (drop 8 rest),
                 Path = dropWhile (\<lambda>ch. ch \<noteq> CHR ''/'') (drop 8 rest),
                 RawQuery = query, Fragment = frag\<rparr>
         else None)"

definition example_ParseQuery :: "string \<Rightarrow> Values" where
  "example_ParseQuery s =
     foldl (\<lambda>q p. if p = [] then q
                   else Values_Add q (fst (cut p CHR ''='')) (snd (cut p CHR ''='')))
       [] (strings_Split s CHR ''&'')"

definition example_String :: "URL \<Rightarrow> string" where
  "example_String u =
     Scheme u @ ''://'' @ Host u @ Path u
       @ (if RawQuery u = [] then [] else CHR ''?'' # RawQuery u)
       @ (if Fragment u = [] then [] else CHR ''#'' # Fragment u)"

fun example_pairs :: "string \<Rightarrow> string list \<Rightarrow> string" where
  "example_pairs k [] = []"
| "example_pairs k (v # vs) =
     k @ ''='' @ v @ (if vs = [] then [] else ''&'' @ example_pairs k vs)"

fun example_Encode :: "Values \<Rightarrow> string" where
  "example_Encode [] = []"
| "example_Encode ((k, vs) # rest) =
     (let here = example_pairs k vs; there = example_Encode rest
      in if here = [] then there else if there = [] then here else here @ ''&'' @ there)"

definition client_c1 :: Client where
  "client_c1 = \<lparr>ID = ''c1'', RedirectURIs = [''https://app.example/cb'']\<rparr>"

definition client_c2 :: Client where
  "client_c2 = \<lparr>ID = ''c2'', RedirectURIs = [''https://app.example/cb#frag'']\<rparr>"

definition client_c3 :: Client where
  "client_c3 = \<lparr>ID = ''c3'',
     RedirectURIs = [''https://app.example/cb'', ''https://app.example/other'']\<rparr>"

definition example_GetClient :: "string \<Rightarrow> Client option" where
  "example_GetClient id' =
     (if id' = ''c1'' then Some client_c1
      else if id' = ''c2'' then Some client_c2
      else if id' = ''c3'' then Some client_c3
      else None)"

definition example_RFC6749Error :: "error \<Rightarrow> RFC6749Error" where
  "example_RFC6749Error err =
     (if err = Wrapped ErrInvalidState
      then \<lparr>Name = ''invalid_state'', Description = ''state-is-missing-or-too-short''\<rparr>
      else if err = Wrapped ErrInvalidClient
      then \<lparr>Name = ''invalid_client'', Description = ''client-authentication-failed''\<rparr>
      else \<lparr>Name = ''invalid_request'', Description = ''request-is-malformed''\<rparr>)"

definition example_WriteJSON :: "ResponseWriter \<Rightarrow> RFC6749Error \<Rightarrow> ResponseWriter" where
  "example_WriteJSON rw rfcerr =
     rw\<lparr>rw_Header := AList.update ''Content-Type'' [''application/json''] (rw_Header rw),
        rw_Body := rw_Body rw @ Name rfcerr @ '': '' @ Description rfcerr\<rparr>"

text \<open>
  The inbound request of the examples is the outcome of its own form parse (\<open>None\<close>: a
  body that does not parse).
\<close>

definition example_env :: "(Values option) env" where
  "example_env =
     \<lparr>time_Now = 1455000000,
      Request_ParseForm = (\<lambda>r. r),
      Store_GetClient = example_GetClient,
      url_QueryUnescape = Some,
      url_Parse = example_Parse,
      url_ParseQuery = example_ParseQuery,
      URL_String = example_String,
      Values_Encode = example_Encode,
      govalidator_IsRequestURL = (\<lambda>s. take 8 s = ''https://''),
      CanonicalMIMEHeaderKey = (\<lambda>k. k),
      IsRedirectURIValid = (\<lambda>ar. RedirectURI ar \<noteq> None),
      ErrorToRFC6749Error = example_RFC6749Error,
      pkg_WriteJSON = example_WriteJSON\<rparr>"

definition url_cb :: URL where
  "url_cb = \<lparr>Scheme = ''https'', Opaque = [], User = [], Host = ''app.example'',
             Path = ''/cb'', RawQuery = [], Fragment = []\<rparr>"

text \<open>The forms of scenarios 1 to 3, a form of an unknown client and a form without state.\<close>

definition form_scenario1 :: Values where
  "form_scenario1 =
     [(''client_id'', [''c1'']), (''response_type'', [''code'']),
      (''state'', [''abcdefgh'']), (''scope'', [''a b''])]"

definition form_scenario2 :: Values where
  "form_scenario2 =
     [(''client_id'', [''c1'']), (''response_type'', [''code'']),
      (''state'', [''short'']), (''scope'', [''a b''])]"

definition form_scenario3 :: Values where
  "form_scenario3 =
     [(''client_id'', [''c1'']), (''redirect_uri'', [''https://evil.example/cb'']),
      (''response_type'', [''code'']), (''state'', [''abcdefgh'']), (''scope'', [''a b''])]"

definition form_unknown_client :: Values where
  "form_unknown_client =
     [(''client_id'', [''nobody'']), (''response_type'', [''code'']),
      (''state'', [''abcdefgh''])]"

definition form_no_state :: Values where
  "form_no_state = [(''client_id'', [''c1'']), (''response_type'', [''code''])]"

definition example_blank :: AuthorizeRequest where
  "example_blank = \<lparr>RequestedAt = 1455000000, Client = None, RedirectURI = None,
                      ResponseTypes = [], State = [], Scopes = []\<rparr>"

text \<open>
  Handlers for the dispatch scenarios. The world of the examples is the list of the names
  of the handlers that were invoked, in order: \<open>logging\<close> makes a handler record its name
  when it is invoked. \<open>example_grant\<close> succeeds and adds a query value; \<open>example_broken\<close>
  fails with an error of its own.
\<close>

definition logging :: "string \<Rightarrow> ('x, 'r, 's, string list) ResponseTypeHandler
    \<Rightarrow> ('x, 'r, 's, string list) ResponseTypeHandler" where
  "logging name h ctx resp ar r session w = h ctx resp ar r session (w @ [name])"

definition example_grant :: "string \<Rightarrow> string \<Rightarrow> ('x, 'r, 's, 'w) ResponseTypeHandler" where
  "example_grant key val ctx resp ar r session w =
     (None, resp\<lparr>Query := Values_Add (Query resp) key val\<rparr>, w)"

definition example_broken :: "('x, 'r, 's, 'w) ResponseTypeHandler" where
  "example_broken ctx resp ar r session w = (Some (OtherError ''storage failure''), resp, w)"

definition request_scenario1 :: AuthorizeRequest where
  "request_scenario1 =
     example_blank\<lparr>Client := Some client_c1, RedirectURI := Some url_cb,
       ResponseTypes := [''code''], State := ''abcdefgh'', Scopes := [''a'', ''b'']\<rparr>"

definition chain_scenario5 :: "(unit, unit, unit, string list) ResponseTypeHandler list" where
  "chain_scenario5 =
     [logging ''A'' CodeResponseTypeHandler, logging ''B'' (example_grant ''code'' ''xyz'')]"

definition chain_scenario6 :: "(unit, unit, unit, string list) ResponseTypeHandler list" where
  "chain_scenario6 =
     [logging ''A'' CodeResponseTypeHandler, logging ''B'' CodeResponseTypeHandler]"

definition chain_broken :: "(unit, unit, unit, string list) ResponseTypeHandler list" where
  "chain_broken =
     [logging ''A'' (example_grant ''code'' ''xyz''), logging ''B'' example_broken,
      logging ''C'' (example_grant ''code'' ''xyz'')]"

text \<open>
  A response writer on which nothing has been written yet, and a response in which one
  query key and one header key hold two values each.
\<close>

definition rw_fresh :: ResponseWriter where
  "rw_fresh = \<lparr>rw_Header = [], rw_WriteHeader = [], rw_Body = []\<rparr>"

definition response_repeated :: AuthorizeResponse where
  "response_repeated =
     \<lparr>Query = [(''scope'', [''a'', ''b''])], Header = [(''X-Flow'', [''1'', ''2''])]\<rparr>"

text \<open>
  A state of four characters in eight bytes: four times U+00E9 (e with acute accent),
  which UTF-8 encodes as the bytes C3 A9. The form carries it for client \<open>c1\<close>.
\<close>

definition state_e4 :: string where
  "state_e4 = [CHR 0xC3, CHR 0xA9, CHR 0xC3, CHR 0xA9, CHR 0xC3, CHR 0xA9, CHR 0xC3, CHR 0xA9]"

definition form_e4 :: Values where
  "form_e4 =
     [(''client_id'', [''c1'']), (''response_type'', [''code'']), (''state'', [state_e4])]"

section \<open>Properties of the redirect URI resolver\<close>

lemma StringInSlice_iff: "StringInSlice needle haystack \<longleftrightarrow> needle \<in> set haystack"
  by (induction haystack) auto

lemma Match_Inr_valid:
  "MatchRedirectURIWithClientRedirectURIs c rawurl client = Inr u \<Longrightarrow> IsValidRedirectURI c u"
  by (auto simp: MatchRedirectURIWithClientRedirectURIs_def split: if_splits option.splits)

lemma IsValidRedirectURI_iff:
  "IsValidRedirectURI c u \<longleftrightarrow>
     govalidator_IsRequestURL c (URL_String c u) \<and> Fragment u = []"
  by (simp add: IsValidRedirectURI_def)

lemma example_Parse_cb [simp]: "example_Parse ''https://app.example/cb'' = Some url_cb"
  by (simp add: example_Parse_def cut_def url_cb_def)

lemma example_Parse_frag [simp]:
  "example_Parse ''https://app.example/cb#frag'' = Some (url_cb\<lparr>Fragment := ''frag''\<rparr>)"
  by (simp add: example_Parse_def cut_def url_cb_def)

lemma example_Parse_evil [simp]:
  "example_Parse ''https://evil.example/cb'' = Some (url_cb\<lparr>Host := ''evil.example''\<rparr>)"
  by (simp add: example_Parse_def cut_def url_cb_def)

lemma example_env_simps [simp]:
  "time_Now example_env = 1455000000"
  "Request_ParseForm example_env = (\<lambda>r. r)"
  "Store_GetClient example_env = example_GetClient"
  "url_QueryUnescape example_env = Some"
  "url_Parse example_env = example_Parse"
  "url_ParseQuery example_env = example_ParseQuery"
  "URL_String example_env = example_String"
  "Values_Encode example_env = example_Encode"
  "govalidator_IsRequestURL example_env = (\<lambda>s. take 8 s = ''https://'')"
  "CanonicalMIMEHeaderKey example_env = (\<lambda>k. k)"
  "IsRedirectURIValid example_env = (\<lambda>ar. RedirectURI ar \<noteq> None)"
  "ErrorToRFC6749Error example_env = example_RFC6749Error"
  "pkg_WriteJSON example_env = example_WriteJSON"
  by (simp_all add: example_env_def)

lemma example_valid_cb [simp]: "IsValidRedirectURI example_env url_cb"
  by (simp add: IsValidRedirectURI_def example_String_def url_cb_def)

lemma example_valid_evil [simp]:
  "IsValidRedirectURI example_env (url_cb\<lparr>Host := ''evil.example''\<rparr>)"
  by (simp add: IsValidRedirectURI_def example_String_def url_cb_def)

text \<open>
  C1. A supplied redirect URI that is not the empty string and is not, by exact string
  comparison, one of the client's registered redirect URIs is rejected with
  \<^verbatim>\<open>errors.New(ErrInvalidRequest)\<close>, whatever the URI parses to and whether or not it
  would be a valid redirect URI.
\<close>

theorem C1_unregistered_uri_rejected:
  assumes "rawurl \<noteq> []"
    and "rawurl \<notin> set (RedirectURIs client)"
  shows "MatchRedirectURIWithClientRedirectURIs c rawurl client
           = Inl (errors_New ErrInvalidRequest)"
  using assms
  by (simp add: MatchRedirectURIWithClientRedirectURIs_def StringInSlice_iff)

text \<open>
  Scenario 3 of the spec: \<^verbatim>\<open>https://evil.example/cb\<close> parses to a valid redirect URI and is
  rejected for client \<open>c1\<close> all the same.
\<close>

theorem C1_unregistered_uri_rejected_witness:
  "''https://evil.example/cb'' \<noteq> []
   \<and> ''https://evil.example/cb'' \<notin> set (RedirectURIs client_c1)
   \<and> url_Parse example_env ''https://evil.example/cb''
        = Some (url_cb\<lparr>Host := ''evil.example''\<rparr>)
   \<and> IsValidRedirectURI example_env (url_cb\<lparr>Host := ''evil.example''\<rparr>)
   \<and> MatchRedirectURIWithClientRedirectURIs example_env ''https://evil.example/cb'' client_c1
        = Inl (errors_New ErrInvalidRequest)"
proof -
  have ne: "''https://evil.example/cb'' \<noteq> []" by simp
  have out: "''https://evil.example/cb'' \<notin> set (RedirectURIs client_c1)"
    by (simp add: client_c1_def)
  show ?thesis
    using ne out C1_unregistered_uri_rejected [OF ne out, of example_env] by simp
qed

text \<open>
  C2. A supplied redirect URI that is, by exact string comparison, one of the client's
  registered redirect URIs is still rejected with \<^verbatim>\<open>errors.New(ErrInvalidRequest)\<close> when
  it does not parse, or when its parsed form has a non-empty fragment or is not an
  absolute request URL (\<^verbatim>\<open>govalidator.IsRequestURL\<close> of its string form is false).
\<close>

theorem C2_registered_but_invalid_rejected:
  assumes "rawurl \<in> set (RedirectURIs client)"
    and "url_Parse c rawurl = None
         \<or> (\<exists>u. url_Parse c rawurl = Some u
                \<and> (Fragment u \<noteq> [] \<or> \<not> govalidator_IsRequestURL c (URL_String c u)))"
  shows "MatchRedirectURIWithClientRedirectURIs c rawurl client
           = Inl (errors_New ErrInvalidRequest)"
proof (cases "rawurl = []")
  case True
  show ?thesis
  proof (cases "length (RedirectURIs client) = 1")
    case one: True
    then obtain x where x: "RedirectURIs client = [x]"
      by (cases "RedirectURIs client") auto
    with assms(1) True have "x = []" by simp
    with x True assms(2) show ?thesis
      by (auto simp: MatchRedirectURIWithClientRedirectURIs_def IsValidRedirectURI_iff)
  next
    case False
    with True show ?thesis
      by (simp add: MatchRedirectURIWithClientRedirectURIs_def)
  qed
next
  case False
  with assms show ?thesis
    by (auto simp: MatchRedirectURIWithClientRedirectURIs_def IsValidRedirectURI_iff
        StringInSlice_iff)
qed

text \<open>
  Scenario 4 of the spec: client \<open>c2\<close> registered \<^verbatim>\<open>https://app.example/cb#frag\<close>, and the
  request supplies the same string.
\<close>

theorem C2_registered_but_invalid_rejected_witness:
  "''https://app.example/cb#frag'' \<in> set (RedirectURIs client_c2)
   \<and> url_Parse example_env ''https://app.example/cb#frag''
        = Some (url_cb\<lparr>Fragment := ''frag''\<rparr>)
   \<and> Fragment (url_cb\<lparr>Fragment := ''frag''\<rparr>) \<noteq> []
   \<and> MatchRedirectURIWithClientRedirectURIs example_env ''https://app.example/cb#frag''
        client_c2 = Inl (errors_New ErrInvalidRequest)"
proof -
  have reg: "''https://app.example/cb#frag'' \<in> set (RedirectURIs client_c2)"
    by (simp add: client_c2_def)
  have bad: "url_Parse example_env ''https://app.example/cb#frag'' = None
     \<or> (\<exists>u. url_Parse example_env ''https://app.example/cb#frag'' = Some u
            \<and> (Fragment u \<noteq> []
               \<or> \<not> govalidator_IsRequestURL example_env (URL_String example_env u)))"
    by simp
  show ?thesis
    using reg C2_registered_but_invalid_rejected [OF reg bad] by simp
qed

text \<open>
  C3. With the empty string supplied: a client with exactly one registered redirect URI
  that parses to an absolute, fragment-free URL resolves to that parsed URL; a client
  whose number of registered redirect URIs is not one (none, two or more), or whose
  single registered URI does not parse or parses to an invalid redirect URI, is rejected
  with \<^verbatim>\<open>errors.New(ErrInvalidRequest)\<close>.
\<close>

theorem C3_empty_redirect_uri:
  "(RedirectURIs client = [uri] \<and> url_Parse c uri = Some u
      \<and> govalidator_IsRequestURL c (URL_String c u) \<and> Fragment u = []
    \<longrightarrow> MatchRedirectURIWithClientRedirectURIs c [] client = Inr u)
   \<and> (length (RedirectURIs client) \<noteq> 1
    \<longrightarrow> MatchRedirectURIWithClientRedirectURIs c [] client
          = Inl (errors_New ErrInvalidRequest))
   \<and> (RedirectURIs client = [uri]
      \<and> (url_Parse c uri = None
         \<or> (\<exists>v. url_Parse c uri = Some v
                \<and> (Fragment v \<noteq> [] \<or> \<not> govalidator_IsRequestURL c (URL_String c v))))
    \<longrightarrow> MatchRedirectURIWithClientRedirectURIs c [] client
          = Inl (errors_New ErrInvalidRequest))"
  by (auto simp: MatchRedirectURIWithClientRedirectURIs_def IsValidRedirectURI_iff)

text \<open>
  Scenario 1 of the spec resolves to the one registered URI of \<open>c1\<close>; \<open>c3\<close> registered two
  URIs; the one URI of \<open>c2\<close> carries a fragment.
\<close>

theorem C3_empty_redirect_uri_witness:
  "MatchRedirectURIWithClientRedirectURIs example_env [] client_c1 = Inr url_cb
   \<and> length (RedirectURIs client_c3) = 2
   \<and> MatchRedirectURIWithClientRedirectURIs example_env [] client_c3
        = Inl (errors_New ErrInvalidRequest)
   \<and> MatchRedirectURIWithClientRedirectURIs example_env [] client_c2
        = Inl (errors_New ErrInvalidRequest)"
proof -
  have one: "RedirectURIs client_c1 = [''https://app.example/cb'']
      \<and> url_Parse example_env ''https://app.example/cb'' = Some url_cb
      \<and> govalidator_IsRequestURL example_env (URL_String example_env url_cb)
      \<and> Fragment url_cb = []"
    by (simp add: client_c1_def example_String_def url_cb_def)
  have two: "length (RedirectURIs client_c3) \<noteq> 1" "length (RedirectURIs client_c3) = 2"
    by (simp_all add: client_c3_def)
  have frag: "RedirectURIs client_c2 = [''https://app.example/cb#frag'']
      \<and> (url_Parse example_env ''https://app.example/cb#frag'' = None
         \<or> (\<exists>v. url_Parse example_env ''https://app.example/cb#frag'' = Some v
                \<and> (Fragment v \<noteq> []
                   \<or> \<not> govalidator_IsRequestURL example_env (URL_String example_env v))))"
    by (simp add: client_c2_def)
  from one
    C3_empty_redirect_uri [of client_c1 "''https://app.example/cb''" example_env url_cb]
  have r1: "MatchRedirectURIWithClientRedirectURIs example_env [] client_c1 = Inr url_cb"
    by blast
  from two(1) C3_empty_redirect_uri [of client_c3 "[]" example_env url_cb]
  have r2: "MatchRedirectURIWithClientRedirectURIs example_env [] client_c3
              = Inl (errors_New ErrInvalidRequest)"
    by blast
  from frag
    C3_empty_redirect_uri [of client_c2 "''https://app.example/cb#frag''" example_env url_cb]
  have r3: "MatchRedirectURIWithClientRedirectURIs example_env [] client_c2
              = Inl (errors_New ErrInvalidRequest)"
    by blast
  from r1 r2 r3 two(2) show ?thesis by simp
qed

section \<open>Properties of the request builder\<close>

lemma Match_c1_empty [simp]:
  "MatchRedirectURIWithClientRedirectURIs example_env [] client_c1 = Inr url_cb"
  by (simp add: MatchRedirectURIWithClientRedirectURIs_def client_c1_def)

lemma Match_c1_evil [simp]:
  "MatchRedirectURIWithClientRedirectURIs example_env ''https://evil.example/cb'' client_c1
     = Inl (errors_New ErrInvalidRequest)"
  by (simp add: MatchRedirectURIWithClientRedirectURIs_def client_c1_def)

lemma example_forms_client [simp]:
  "Store_GetClient example_env (Values_Get form_scenario1 ''client_id'') = Some client_c1"
  "Store_GetClient example_env (Values_Get form_scenario2 ''client_id'') = Some client_c1"
  "Store_GetClient example_env (Values_Get form_scenario3 ''client_id'') = Some client_c1"
  "Store_GetClient example_env (Values_Get form_no_state ''client_id'') = Some client_c1"
  "Store_GetClient example_env (Values_Get form_unknown_client ''client_id'') = None"
  by (simp_all add: Values_Get_def Values_lookup_def example_GetClient_def
      form_scenario1_def form_scenario2_def form_scenario3_def form_no_state_def
      form_unknown_client_def)

lemma example_forms_redirect_uri [simp]:
  "GetRedirectURIFromRequestValues example_env form_scenario1 = Inr []"
  "GetRedirectURIFromRequestValues example_env form_scenario2 = Inr []"
  "GetRedirectURIFromRequestValues example_env form_scenario3 = Inr ''https://evil.example/cb''"
  "GetRedirectURIFromRequestValues example_env form_no_state = Inr []"
  by (simp_all add: GetRedirectURIFromRequestValues_def Values_Get_def Values_lookup_def
      form_scenario1_def form_scenario2_def form_scenario3_def form_no_state_def)

lemma example_forms_state [simp]:
  "Values_Get form_scenario1 ''state'' = ''abcdefgh''"
  "Values_Get form_scenario2 ''state'' = ''short''"
  "Values_Get form_no_state ''state'' = []"
  by (simp_all add: Values_Get_def Values_lookup_def
      form_scenario1_def form_scenario2_def form_no_state_def)

lemma example_forms_response_type [simp]:
  "removeEmpty (strings_Split (Values_Get form_scenario1 ''response_type'') CHR '' '')
     = [''code'']"
  "removeEmpty (strings_Split (Values_Get form_scenario2 ''response_type'') CHR '' '')
     = [''code'']"
  by (simp_all add: Values_Get_def Values_lookup_def removeEmpty_def
      form_scenario1_def form_scenario2_def)

lemmas example_defs =
  Values_Get_def Values_lookup_def example_GetClient_def GetRedirectURIFromRequestValues_def
  removeEmpty_def form_scenario1_def form_scenario2_def form_scenario3_def
  form_unknown_client_def form_no_state_def

lemma New_scenario1:
  "NewAuthorizeRequest example_env (Some form_scenario1)
     = (example_blank\<lparr>Client := Some client_c1, RedirectURI := Some url_cb,
          ResponseTypes := [''code''], State := ''abcdefgh'', Scopes := [''a'', ''b'']\<rparr>, None)"
  by (simp add: NewAuthorizeRequest_def example_blank_def minStateLength_def example_defs)

lemma character_count_le: "character_count s \<le> length s"
  by (simp add: character_count_def)

lemma state_e4_count: "character_count state_e4 = 4" "length state_e4 = 8"
  by (simp_all add: character_count_def is_continuation_byte_def state_e4_def)

lemma New_e4:
  "NewAuthorizeRequest example_env (Some form_e4)
     = (example_blank\<lparr>Client := Some client_c1, RedirectURI := Some url_cb,
          ResponseTypes := [''code''], State := state_e4\<rparr>, None)"
  by (simp add: NewAuthorizeRequest_def example_blank_def minStateLength_def
      Values_Get_def Values_lookup_def example_GetClient_def
      GetRedirectURIFromRequestValues_def removeEmpty_def form_e4_def state_e4_def)

text \<open>
  C4, amended to the unit of the code. When the form parses, the client is found, the raw
  redirect URI is extracted and resolves against the client (the split of
  \<^verbatim>\<open>response_type\<close> cannot fail), a state of fewer than 8 bytes, the empty state
  included, makes \<^verbatim>\<open>NewAuthorizeRequest\<close> return \<^verbatim>\<open>errors.New(ErrInvalidState)\<close>. The
  code compares \<^verbatim>\<open>len(state)\<close>, the number of bytes, with \<^verbatim>\<open>minStateLength\<close>. Every
  state of fewer than 8 bytes has fewer than 8 characters; the converse fails.
\<close>

theorem C4_short_state_rejected:
  assumes "Request_ParseForm c r = Some form"
    and "Store_GetClient c (Values_Get form ''client_id'') = Some client"
    and "GetRedirectURIFromRequestValues c form = Inr rawRedirURI"
    and "MatchRedirectURIWithClientRedirectURIs c rawRedirURI client = Inr redirectURI"
    and "length (Values_Get form ''state'') < 8"
  shows "snd (NewAuthorizeRequest c r) = Some (errors_New ErrInvalidState)"
  using assms Match_Inr_valid [OF assms(4)]
  by (simp add: NewAuthorizeRequest_def Let_def minStateLength_def)

text \<open>Scenario 2 of the spec (state \<^verbatim>\<open>short\<close>), and the same client with no state at all.\<close>

theorem C4_short_state_rejected_witness:
  "length (Values_Get form_scenario2 ''state'') = 5
   \<and> snd (NewAuthorizeRequest example_env (Some form_scenario2))
        = Some (errors_New ErrInvalidState)
   \<and> length (Values_Get form_no_state ''state'') = 0
   \<and> snd (NewAuthorizeRequest example_env (Some form_no_state))
        = Some (errors_New ErrInvalidState)"
proof -
  have parse: "Request_ParseForm example_env (Some f) = Some f" for f
    by simp
  have short: "length (Values_Get form_scenario2 ''state'') < 8"
    and none: "length (Values_Get form_no_state ''state'') < 8"
    by simp_all
  have r2: "snd (NewAuthorizeRequest example_env (Some form_scenario2))
              = Some (errors_New ErrInvalidState)"
    by (rule C4_short_state_rejected [OF parse example_forms_client(2)
          example_forms_redirect_uri(2) Match_c1_empty short])
  have r0: "snd (NewAuthorizeRequest example_env (Some form_no_state))
              = Some (errors_New ErrInvalidState)"
    by (rule C4_short_state_rejected [OF parse example_forms_client(4)
          example_forms_redirect_uri(4) Match_c1_empty none])
  from r2 r0 show ?thesis by simp
qed

text \<open>
  C4 as the claim words it, with the length in characters, does not hold: for client
  \<open>c1\<close> every earlier step succeeds, the state \<open>state_e4\<close> has 4 characters, and the
  request is built with the nil error, because the state has 8 bytes.
\<close>

theorem C4_few_characters_accepted_counterexample:
  "Request_ParseForm example_env (Some form_e4) = Some form_e4
   \<and> Store_GetClient example_env (Values_Get form_e4 ''client_id'') = Some client_c1
   \<and> GetRedirectURIFromRequestValues example_env form_e4 = Inr []
   \<and> MatchRedirectURIWithClientRedirectURIs example_env [] client_c1 = Inr url_cb
   \<and> character_count (Values_Get form_e4 ''state'') = 4
   \<and> snd (NewAuthorizeRequest example_env (Some form_e4)) = None"
  by (simp add: New_e4)
    (simp add: Values_Get_def Values_lookup_def example_GetClient_def
      GetRedirectURIFromRequestValues_def form_e4_def state_e4_count)

text \<open>
  C9, amended to the unit of the code. A request that \<^verbatim>\<open>NewAuthorizeRequest\<close> returns
  with the nil error has a state of at least 8 bytes, which is therefore not empty, and
  a redirect URI whose string form is an absolute request URL
  (\<^verbatim>\<open>govalidator.IsRequestURL\<close>) and whose fragment is empty.
\<close>

theorem C9_built_request_invariants:
  assumes "NewAuthorizeRequest c r = (request, None)"
  shows "8 \<le> length (State request) \<and> State request \<noteq> []
         \<and> (\<exists>u. RedirectURI request = Some u
                \<and> govalidator_IsRequestURL c (URL_String c u) \<and> Fragment u = [])"
  using assms
  by (auto simp: NewAuthorizeRequest_def Let_def minStateLength_def IsValidRedirectURI_iff
      split: option.splits sum.splits if_splits)

text \<open>Scenario 1 of the spec: the request that is built, and its invariants.\<close>

theorem C9_built_request_invariants_witness:
  "NewAuthorizeRequest example_env (Some form_scenario1)
     = (example_blank\<lparr>Client := Some client_c1, RedirectURI := Some url_cb,
          ResponseTypes := [''code''], State := ''abcdefgh'', Scopes := [''a'', ''b'']\<rparr>, None)
   \<and> 8 \<le> length ''abcdefgh''
   \<and> govalidator_IsRequestURL example_env (URL_String example_env url_cb)
   \<and> Fragment url_cb = []"
  using C9_built_request_invariants [OF New_scenario1] New_scenario1
  by simp

text \<open>
  C9 with the state's length in characters, as the data model of the spec has it, does
  not hold: the request built from \<open>form_e4\<close> is returned with the nil error and its
  state has 4 characters.
\<close>

theorem C9_few_characters_built_counterexample:
  "NewAuthorizeRequest example_env (Some form_e4)
     = (example_blank\<lparr>Client := Some client_c1, RedirectURI := Some url_cb,
          ResponseTypes := [''code''], State := state_e4\<rparr>, None)
   \<and> character_count (State (example_blank\<lparr>Client := Some client_c1,
          RedirectURI := Some url_cb, ResponseTypes := [''code''], State := state_e4\<rparr>)) = 4
   \<and> \<not> 8 \<le> character_count (State (example_blank\<lparr>Client := Some client_c1,
          RedirectURI := Some url_cb, ResponseTypes := [''code''], State := state_e4\<rparr>))"
  by (simp add: New_e4 state_e4_count)

text \<open>
  C10. On each failure path \<^verbatim>\<open>NewAuthorizeRequest\<close> returns the error together with the
  request as the completed steps left it: only \<^verbatim>\<open>RequestedAt\<close> after a form parse error
  or an unknown client; also the client after a failed extraction or resolution of the
  redirect URI; also the redirect URI and the response types after an invalid state.
  \<^verbatim>\<open>State\<close> and \<^verbatim>\<open>Scopes\<close> are never set on a failure path. These are all the failure
  paths: when every step succeeds and the state has at least 8 bytes, the error is nil.
  The request is the freshly allocated object in every case, never nil.
\<close>

theorem C10_failure_keeps_partial_request:
  "(let blank = \<lparr>RequestedAt = time_Now c, Client = None, RedirectURI = None,
                  ResponseTypes = [], State = [], Scopes = []\<rparr>
    in (Request_ParseForm c r = None
        \<longrightarrow> NewAuthorizeRequest c r = (blank, Some (errors_New ErrInvalidRequest)))
     \<and> (Request_ParseForm c r = Some form
        \<and> Store_GetClient c (Values_Get form ''client_id'') = None
        \<longrightarrow> NewAuthorizeRequest c r = (blank, Some (errors_New ErrInvalidClient)))
     \<and> (Request_ParseForm c r = Some form
        \<and> Store_GetClient c (Values_Get form ''client_id'') = Some client
        \<and> (GetRedirectURIFromRequestValues c form = Inl e1
           \<or> GetRedirectURIFromRequestValues c form = Inr rawRedirURI
             \<and> MatchRedirectURIWithClientRedirectURIs c rawRedirURI client = Inl e2)
        \<longrightarrow> NewAuthorizeRequest c r
              = (blank\<lparr>Client := Some client\<rparr>, Some (errors_New ErrInvalidRequest)))
     \<and> (Request_ParseForm c r = Some form
        \<and> Store_GetClient c (Values_Get form ''client_id'') = Some client
        \<and> GetRedirectURIFromRequestValues c form = Inr rawRedirURI
        \<and> MatchRedirectURIWithClientRedirectURIs c rawRedirURI client = Inr redirectURI
        \<and> length (Values_Get form ''state'') < 8
        \<longrightarrow> NewAuthorizeRequest c r
              = (blank\<lparr>Client := Some client, RedirectURI := Some redirectURI,
                   ResponseTypes :=
                     removeEmpty (strings_Split (Values_Get form ''response_type'') CHR '' '')\<rparr>,
                 Some (errors_New ErrInvalidState)))
     \<and> (Request_ParseForm c r = Some form
        \<and> Store_GetClient c (Values_Get form ''client_id'') = Some client
        \<and> GetRedirectURIFromRequestValues c form = Inr rawRedirURI
        \<and> MatchRedirectURIWithClientRedirectURIs c rawRedirURI client = Inr redirectURI
        \<and> 8 \<le> length (Values_Get form ''state'')
        \<longrightarrow> snd (NewAuthorizeRequest c r) = None))"
  by (auto simp: NewAuthorizeRequest_def Let_def minStateLength_def
      dest: Match_Inr_valid)

text \<open>
  A body that does not parse, an unknown client, scenario 3 (unregistered redirect URI),
  scenario 2 (short state), and scenario 1, which succeeds.
\<close>

theorem C10_failure_keeps_partial_request_witness:
  "NewAuthorizeRequest example_env None
     = (example_blank, Some (errors_New ErrInvalidRequest))
   \<and> NewAuthorizeRequest example_env (Some form_unknown_client)
     = (example_blank, Some (errors_New ErrInvalidClient))
   \<and> NewAuthorizeRequest example_env (Some form_scenario3)
     = (example_blank\<lparr>Client := Some client_c1\<rparr>, Some (errors_New ErrInvalidRequest))
   \<and> NewAuthorizeRequest example_env (Some form_scenario2)
     = (example_blank\<lparr>Client := Some client_c1, RedirectURI := Some url_cb,
          ResponseTypes := [''code'']\<rparr>, Some (errors_New ErrInvalidState))
   \<and> snd (NewAuthorizeRequest example_env (Some form_scenario1)) = None"
proof -
  have r1: "NewAuthorizeRequest example_env None
              = (example_blank, Some (errors_New ErrInvalidRequest))"
    using C10_failure_keeps_partial_request [where c = example_env and r = None]
    by (simp add: Let_def example_blank_def example_defs)
  have r2: "NewAuthorizeRequest example_env (Some form_unknown_client)
              = (example_blank, Some (errors_New ErrInvalidClient))"
    using C10_failure_keeps_partial_request
      [where c = example_env and r = "Some form_unknown_client"
         and form = form_unknown_client]
    by (simp add: Let_def example_blank_def example_defs)
  have r3: "NewAuthorizeRequest example_env (Some form_scenario3)
              = (example_blank\<lparr>Client := Some client_c1\<rparr>,
                 Some (errors_New ErrInvalidRequest))"
    using C10_failure_keeps_partial_request
      [where c = example_env and r = "Some form_scenario3" and form = form_scenario3
         and client = client_c1 and rawRedirURI = "''https://evil.example/cb''"
         and ?e2.0 = "errors_New ErrInvalidRequest"]
    by (simp add: Let_def example_blank_def example_defs)
  have r4: "NewAuthorizeRequest example_env (Some form_scenario2)
              = (example_blank\<lparr>Client := Some client_c1, RedirectURI := Some url_cb,
                   ResponseTypes := [''code'']\<rparr>, Some (errors_New ErrInvalidState))"
    using C10_failure_keeps_partial_request
      [where c = example_env and r = "Some form_scenario2" and form = form_scenario2
         and client = client_c1 and rawRedirURI = "[]" and redirectURI = url_cb]
    by (simp add: Let_def example_blank_def example_defs)
  have r5: "snd (NewAuthorizeRequest example_env (Some form_scenario1)) = None"
    using C10_failure_keeps_partial_request
      [where c = example_env and r = "Some form_scenario1" and form = form_scenario1
         and client = client_c1 and rawRedirURI = "[]" and redirectURI = url_cb]
    by (simp add: Let_def example_defs)
  from r1 r2 r3 r4 r5 show ?thesis by simp
qed

section \<open>Properties of the dispatcher\<close>

lemma handle_response_types_nonfatal:
  "invoke_all hs ctx ar r session resp w = (outs, resp', w') \<Longrightarrow>
   \<forall>outcome \<in> set outs. outcome = None \<or> outcome = Some ErrInvalidResponseType \<Longrightarrow>
   handle_response_types hs ctx ar r session resp found w
     = (Inr (resp', found \<or> None \<in> set outs), w')"
proof (induction hs arbitrary: resp w found outs)
  case Nil
  then show ?case by simp
next
  case (Cons h hs)
  obtain err resp1 w1 where h: "h ctx resp ar r session w = (err, resp1, w1)"
    by (cases "h ctx resp ar r session w") auto
  obtain errs resp2 w2 where rest: "invoke_all hs ctx ar r session resp1 w1 = (errs, resp2, w2)"
    by (cases "invoke_all hs ctx ar r session resp1 w1") auto
  from Cons.prems(1) h rest have outs: "outs = err # errs" and r: "resp' = resp2" "w' = w2"
    by simp_all
  from Cons.prems(2) outs have nf: "err = None \<or> err = Some ErrInvalidResponseType"
    and nfs: "\<forall>outcome \<in> set errs. outcome = None \<or> outcome = Some ErrInvalidResponseType"
    by simp_all
  from rest r have rest': "invoke_all hs ctx ar r session resp1 w1 = (errs, resp', w')"
    by simp
  note IH = Cons.IH [OF rest' nfs]
  from nf show ?case
  proof
    assume "err = None"
    with h outs IH [of True] show ?thesis by simp
  next
    assume "err = Some ErrInvalidResponseType"
    with h outs IH [of found] show ?thesis by auto
  qed
qed

lemma handle_response_types_fatal:
  "invoke_all pre ctx ar r session resp w = (outs, resp1, w1) \<Longrightarrow>
   \<forall>outcome \<in> set outs. outcome = None \<or> outcome = Some ErrInvalidResponseType \<Longrightarrow>
   h ctx resp1 ar r session w1 = (Some e, resp2, w2) \<Longrightarrow>
   e \<noteq> ErrInvalidResponseType \<Longrightarrow>
   handle_response_types (pre @ h # post) ctx ar r session resp found w = (Inl e, w2)"
proof (induction pre arbitrary: resp w found outs)
  case Nil
  then show ?case by simp
next
  case (Cons g pre)
  obtain err resp' w' where g: "g ctx resp ar r session w = (err, resp', w')"
    by (cases "g ctx resp ar r session w") auto
  obtain errs resp'' w'' where rest:
      "invoke_all pre ctx ar r session resp' w' = (errs, resp'', w'')"
    by (cases "invoke_all pre ctx ar r session resp' w'") auto
  from Cons.prems(1) g rest have outs: "outs = err # errs" and r: "resp1 = resp''" "w1 = w''"
    by simp_all
  from Cons.prems(2) outs have nf: "err = None \<or> err = Some ErrInvalidResponseType"
    and nfs: "\<forall>outcome \<in> set errs. outcome = None \<or> outcome = Some ErrInvalidResponseType"
    by simp_all
  from rest r have rest': "invoke_all pre ctx ar r session resp' w' = (errs, resp1, w1)"
    by simp
  note IH = Cons.IH [OF rest' nfs Cons.prems(3) Cons.prems(4)]
  from nf show ?case
  proof
    assume "err = None"
    with g IH [of True] show ?thesis by simp
  next
    assume "err = Some ErrInvalidResponseType"
    with g IH [of found] show ?thesis by simp
  qed
qed

lemmas example_handler_defs =
  logging_def CodeResponseTypeHandler_def example_grant_def example_broken_def
  request_scenario1_def Values_Add_def Values_lookup_def

text \<open>
  C5. Let every handler of the chain, invoked in turn, return nil or the not-responsible
  sentinel \<^verbatim>\<open>ErrInvalidResponseType\<close>. If at least one returns nil,
  \<^verbatim>\<open>NewAuthorizeResponse\<close> returns the accumulated response and no error. If every one
  returns the sentinel (the empty chain included), it returns
  \<^verbatim>\<open>ErrNoResponseTypeHandlerFound\<close>. So it fails with that error exactly when no handler
  returned nil. In each case every handler has been invoked: the world is the one the
  last handler left.
\<close>

theorem C5_dispatch_after_full_traversal:
  assumes "invoke_all hs ctx ar r session \<lparr>Query = [], Header = []\<rparr> w = (outcomes, resp, w')"
    and "\<forall>outcome \<in> set outcomes. outcome = None \<or> outcome = Some ErrInvalidResponseType"
  shows "(None \<in> set outcomes
            \<longrightarrow> NewAuthorizeResponse hs ctx ar r session w = (Inr resp, w'))
       \<and> ((\<forall>outcome \<in> set outcomes. outcome = Some ErrInvalidResponseType)
            \<longrightarrow> NewAuthorizeResponse hs ctx ar r session w
                  = (Inl ErrNoResponseTypeHandlerFound, w'))
       \<and> (fst (NewAuthorizeResponse hs ctx ar r session w) = Inl ErrNoResponseTypeHandlerFound
            \<longleftrightarrow> None \<notin> set outcomes)"
  using handle_response_types_nonfatal [OF assms, of False]
  by (auto simp: NewAuthorizeResponse_def)

text \<open>
  Scenarios 5 and 6 of the spec: \<open>[A not responsible, B success]\<close> succeeds with what B
  wrote; \<open>[A not responsible, B not responsible]\<close> fails. Both handlers ran in both.
\<close>

theorem C5_dispatch_after_full_traversal_witness:
  "NewAuthorizeResponse chain_scenario5 () request_scenario1 () () []
     = (Inr \<lparr>Query = [(''code'', [''xyz''])], Header = []\<rparr>, [''A'', ''B''])
   \<and> NewAuthorizeResponse chain_scenario6 () request_scenario1 () () []
     = (Inl ErrNoResponseTypeHandlerFound, [''A'', ''B''])"
proof -
  have inv5: "invoke_all chain_scenario5 () request_scenario1 () ()
                \<lparr>Query = [], Header = []\<rparr> []
      = ([Some ErrInvalidResponseType, None],
         \<lparr>Query = [(''code'', [''xyz''])], Header = []\<rparr>, [''A'', ''B''])"
    by (simp add: chain_scenario5_def example_handler_defs)
  have inv6: "invoke_all chain_scenario6 () request_scenario1 () ()
                \<lparr>Query = [], Header = []\<rparr> []
      = ([Some ErrInvalidResponseType, Some ErrInvalidResponseType],
         \<lparr>Query = [], Header = []\<rparr>, [''A'', ''B''])"
    by (simp add: chain_scenario6_def example_handler_defs)
  have nf5: "\<forall>outcome \<in> set [Some ErrInvalidResponseType, None].
               outcome = None \<or> outcome = Some ErrInvalidResponseType"
    and nf6: "\<forall>outcome \<in> set [Some ErrInvalidResponseType, Some ErrInvalidResponseType].
               outcome = None \<or> outcome = Some ErrInvalidResponseType"
    by simp_all
  from C5_dispatch_after_full_traversal [OF inv5 nf5]
    C5_dispatch_after_full_traversal [OF inv6 nf6]
  show ?thesis by simp
qed

text \<open>
  C6. Let the handler at position \<open>i\<close> be invoked (every handler before it returned nil
  or the sentinel) and return an error \<open>e\<close> other than the sentinel. Then
  \<^verbatim>\<open>NewAuthorizeResponse\<close> returns \<open>e\<close>, whether or not an earlier handler succeeded, and
  the world is the one handler \<open>i\<close> left: no handler after position \<open>i\<close> is invoked, and
  whatever handlers follow position \<open>i\<close> make no difference to the outcome.
\<close>

theorem C6_fatal_error_aborts:
  assumes "i < length hs"
    and "invoke_all (take i hs) ctx ar r session \<lparr>Query = [], Header = []\<rparr> w
           = (outcomes, resp1, w1)"
    and "\<forall>outcome \<in> set outcomes. outcome = None \<or> outcome = Some ErrInvalidResponseType"
    and "(hs ! i) ctx resp1 ar r session w1 = (Some e, resp2, w2)"
    and "e \<noteq> ErrInvalidResponseType"
  shows "NewAuthorizeResponse hs ctx ar r session w = (Inl e, w2)
       \<and> (\<forall>post. NewAuthorizeResponse (take i hs @ hs ! i # post) ctx ar r session w
                   = (Inl e, w2))"
proof -
  have any: "NewAuthorizeResponse (take i hs @ hs ! i # post) ctx ar r session w = (Inl e, w2)"
    for post
    using handle_response_types_fatal
      [where pre = "take i hs" and h = "hs ! i" and post = post and found = False,
        OF assms(2) assms(3) assms(4) assms(5)]
    by (simp add: NewAuthorizeResponse_def)
  from assms(1) have "hs = take i hs @ hs ! i # drop (Suc i) hs"
    by (simp add: id_take_nth_drop)
  with any [of "drop (Suc i) hs"] show ?thesis
    using any by simp
qed


text \<open>
  \<open>[A success, B broken, C success]\<close>: the error of B is returned although A succeeded, and
  the log shows that C never ran.
\<close>

theorem C6_fatal_error_aborts_witness:
  "Suc 0 < length chain_broken
   \<and> OtherError ''storage failure'' \<noteq> ErrInvalidResponseType
   \<and> NewAuthorizeResponse chain_broken () request_scenario1 () () []
       = (Inl (OtherError ''storage failure''), [''A'', ''B''])"
proof -
  have len: "Suc 0 < length chain_broken"
    by (simp add: chain_broken_def)
  have pre: "invoke_all (take (Suc 0) chain_broken) () request_scenario1 () ()
               \<lparr>Query = [], Header = []\<rparr> []
      = ([None], \<lparr>Query = [(''code'', [''xyz''])], Header = []\<rparr>, [''A''])"
    by (simp add: chain_broken_def example_handler_defs)
  have nf: "\<forall>outcome \<in> set [None]. outcome = None \<or> outcome = Some ErrInvalidResponseType"
    by simp
  have at: "(chain_broken ! Suc 0) () \<lparr>Query = [(''code'', [''xyz''])], Header = []\<rparr>
               request_scenario1 () () [''A'']
      = (Some (OtherError ''storage failure''),
         \<lparr>Query = [(''code'', [''xyz''])], Header = []\<rparr>, [''A'', ''B''])"
    by (simp add: chain_broken_def example_handler_defs)
  have fatal: "OtherError ''storage failure'' \<noteq> ErrInvalidResponseType"
    by simp
  from C6_fatal_error_aborts [OF len pre nf at fatal] len fatal
  show ?thesis by simp
qed

section \<open>Properties of the response writer\<close>

text \<open>
  What a value map holds after \<^verbatim>\<open>Add\<close>, and after the loop that merges the response's
  query values into the redirect URI's: every key of the response gains one value, the
  first of the key's values (\<^verbatim>\<open>args.Get(k)\<close>); the values already there stay in front.
\<close>

lemma Values_lookup_Add:
  "Values_lookup (Values_Add q k v) k'
     = (if k' = k then Values_lookup q k @ [v] else Values_lookup q k')"
  by (simp add: Values_lookup_def Values_Add_def update_conv')

lemma add_query_args_lookup:
  "distinct ks \<Longrightarrow>
   Values_lookup (add_query_args args ks q) k
     = Values_lookup q k @ (if k \<in> set ks then [Values_Get args k] else [])"
  by (induction ks arbitrary: q) (auto simp: Values_lookup_Add)

lemma merged_query_lookup:
  "Values_lookup (add_query_args args (Values_keys args) q) k
     = Values_lookup q k @ (if k \<in> fst ` set args then [Values_Get args k] else [])"
  by (simp add: add_query_args_lookup Values_keys_def)

lemma WriteAuthorizeResponse_redirect:
  "RedirectURI ar = Some redir \<Longrightarrow>
   \<exists>rw'. WriteAuthorizeResponse c rw ar resp
     = Inr (rw', ar\<lparr>RedirectURI := Some (redir\<lparr>RawQuery :=
         Values_Encode c
           (add_query_args (Query resp) (Values_keys (Query resp)) (URL_Query c redir))\<rparr>)\<rparr>)"
  by (simp add: WriteAuthorizeResponse_def Let_def)

text \<open>
  C7. The claim that every accumulated query parameter of the response is appended, also
  when a key holds repeated values, does not hold of the code. For the redirect URI
  \<^verbatim>\<open>https://app.example/cb\<close> and a response whose query key \<^verbatim>\<open>scope\<close> holds the two
  values \<^verbatim>\<open>a\<close> and \<^verbatim>\<open>b\<close>, the \<^verbatim>\<open>Location\<close> that is written carries \<^verbatim>\<open>scope=a\<close> only:
  the query loop adds \<^verbatim>\<open>args.Get(k)\<close>, the first value of each key. The header loop of
  the same function ranges over all values of a key, and both values of \<^verbatim>\<open>X-Flow\<close>
  reach the outbound headers.
\<close>

theorem C7_repeated_query_value_dropped:
  "WriteAuthorizeResponse example_env rw_fresh request_scenario1 response_repeated
     = Inr (\<lparr>rw_Header = [(''X-Flow'', [''1'', ''2'']),
                           (''Location'', [''https://app.example/cb?scope=a''])],
             rw_WriteHeader = [302], rw_Body = []\<rparr>,
            request_scenario1\<lparr>RedirectURI := Some (url_cb\<lparr>RawQuery := ''scope=a''\<rparr>)\<rparr>)"
  by (simp add: WriteAuthorizeResponse_def rw_fresh_def request_scenario1_def
      response_repeated_def url_cb_def URL_Query_def example_ParseQuery_def Values_keys_def
      Values_Get_def Values_lookup_def Values_Add_def Header_Add_def Header_Set_def
      example_String_def StatusFound_def example_blank_def)

text \<open>
  C8. When \<^verbatim>\<open>IsRedirectURIValid\<close> is false, \<^verbatim>\<open>WriteAuthorizeError\<close> hands the RFC-mapped
  error to \<^verbatim>\<open>pkg.WriteJSON\<close> and does nothing else: no \<^verbatim>\<open>Location\<close>, no status, the
  request untouched. When it is true, for the request's redirect URI \<open>u\<close>, the query
  values of \<open>u\<close> gain the error's name under \<^verbatim>\<open>error\<close> and its description under
  \<^verbatim>\<open>error_description\<close>, each after the values that were there, and no other key
  changes; the re-encoded URI is added as \<^verbatim>\<open>Location\<close> and status 302 is written. (A
  request that reports a valid redirect URI and holds none is outside the claim: the
  code dereferences the nil pointer.)
\<close>

theorem C8_write_authorize_error:
  "(\<not> IsRedirectURIValid c ar
      \<longrightarrow> WriteAuthorizeError c rw ar err
            = Inr (pkg_WriteJSON c rw (ErrorToRFC6749Error c err), ar))
   \<and> (IsRedirectURIValid c ar \<and> RedirectURI ar = Some u
      \<longrightarrow> (let rfcerr = ErrorToRFC6749Error c err;
                query = Values_Add (Values_Add (URL_Query c u) ''error'' (Name rfcerr))
                          ''error_description'' (Description rfcerr);
                redirectURI = u\<lparr>RawQuery := Values_Encode c query\<rparr>
            in Values_lookup query ''error''
                 = Values_lookup (URL_Query c u) ''error'' @ [Name rfcerr]
             \<and> Values_lookup query ''error_description''
                 = Values_lookup (URL_Query c u) ''error_description'' @ [Description rfcerr]
             \<and> (\<forall>k. k \<noteq> ''error'' \<and> k \<noteq> ''error_description''
                    \<longrightarrow> Values_lookup query k = Values_lookup (URL_Query c u) k)
             \<and> WriteAuthorizeError c rw ar err
                 = Inr (rw\<lparr>rw_Header :=
                              Header_Add c (rw_Header rw) ''Location'' (URL_String c redirectURI),
                            rw_WriteHeader := rw_WriteHeader rw @ [302]\<rparr>,
                        ar\<lparr>RedirectURI := Some redirectURI\<rparr>)))"
  by (simp add: WriteAuthorizeError_def Let_def Values_lookup_Add StatusFound_def)

text \<open>
  The request left by scenario 3 (no redirect URI established) gets the JSON body; the
  request left by scenario 2 (redirect URI resolved, state too short) gets the redirect.
\<close>

theorem C8_write_authorize_error_witness:
  "WriteAuthorizeError example_env rw_fresh (example_blank\<lparr>Client := Some client_c1\<rparr>)
       (errors_New ErrInvalidRequest)
     = Inr (\<lparr>rw_Header = [(''Content-Type'', [''application/json''])], rw_WriteHeader = [],
              rw_Body = ''invalid_request: request-is-malformed''\<rparr>,
            example_blank\<lparr>Client := Some client_c1\<rparr>)
   \<and> WriteAuthorizeError example_env rw_fresh
       (example_blank\<lparr>Client := Some client_c1, RedirectURI := Some url_cb,
          ResponseTypes := [''code'']\<rparr>)
       (errors_New ErrInvalidState)
     = Inr (\<lparr>rw_Header = [(''Location'',
                [''https://app.example/cb?error=invalid_state&error_description=state-is-missing-or-too-short''])],
              rw_WriteHeader = [302], rw_Body = []\<rparr>,
            example_blank\<lparr>Client := Some client_c1,
              RedirectURI := Some (url_cb\<lparr>RawQuery :=
                ''error=invalid_state&error_description=state-is-missing-or-too-short''\<rparr>),
              ResponseTypes := [''code'']\<rparr>)"
proof -
  have json: "\<not> IsRedirectURIValid example_env (example_blank\<lparr>Client := Some client_c1\<rparr>)"
    by (simp add: example_blank_def)
  have redirect: "IsRedirectURIValid example_env
        (example_blank\<lparr>Client := Some client_c1, RedirectURI := Some url_cb,
           ResponseTypes := [''code'']\<rparr>)
      \<and> RedirectURI (example_blank\<lparr>Client := Some client_c1, RedirectURI := Some url_cb,
           ResponseTypes := [''code'']\<rparr>) = Some url_cb"
    by simp
  have r1: "WriteAuthorizeError example_env rw_fresh (example_blank\<lparr>Client := Some client_c1\<rparr>)
       (errors_New ErrInvalidRequest)
     = Inr (\<lparr>rw_Header = [(''Content-Type'', [''application/json''])], rw_WriteHeader = [],
              rw_Body = ''invalid_request: request-is-malformed''\<rparr>,
            example_blank\<lparr>Client := Some client_c1\<rparr>)"
    using json C8_write_authorize_error
      [where c = example_env and ar = "example_blank\<lparr>Client := Some client_c1\<rparr>"
         and rw = rw_fresh and err = "errors_New ErrInvalidRequest"]
    by (simp add: example_WriteJSON_def example_RFC6749Error_def errors_New_def rw_fresh_def)
  have r2: "WriteAuthorizeError example_env rw_fresh
       (example_blank\<lparr>Client := Some client_c1, RedirectURI := Some url_cb,
          ResponseTypes := [''code'']\<rparr>)
       (errors_New ErrInvalidState)
     = Inr (\<lparr>rw_Header = [(''Location'',
                [''https://app.example/cb?error=invalid_state&error_description=state-is-missing-or-too-short''])],
              rw_WriteHeader = [302], rw_Body = []\<rparr>,
            example_blank\<lparr>Client := Some client_c1,
              RedirectURI := Some (url_cb\<lparr>RawQuery :=
                ''error=invalid_state&error_description=state-is-missing-or-too-short''\<rparr>),
              ResponseTypes := [''code'']\<rparr>)"
    using redirect C8_write_authorize_error
      [where c = example_env and u = url_cb and rw = rw_fresh
         and err = "errors_New ErrInvalidState"
         and ar = "example_blank\<lparr>Client := Some client_c1, RedirectURI := Some url_cb,
                     ResponseTypes := [''code'']\<rparr>"]
    by (simp add: Let_def example_RFC6749Error_def errors_New_def rw_fresh_def
        URL_Query_def example_ParseQuery_def url_cb_def Values_Add_def Values_lookup_def
        Header_Add_def example_String_def)
  from r1 r2 show ?thesis by simp
qed

end
